theory Spec2Isabelle
  imports Main
begin

section \<open>Python strings\<close>

text \<open>
  A Python \<^verbatim>\<open>str\<close> is a sequence of code points. The model writes it as a
  \<^typ>\<open>string\<close> whose characters are the code points below 256 (ASCII and the
  Latin-1 supplement, which holds every accented letter of the literals in the source),
  so \<^term>\<open>length\<close> is Python's \<^verbatim>\<open>len\<close>. The classifications below are those of
  the Unicode database on that range.
\<close>

definition py_isspace :: "char \<Rightarrow> bool" where
  \<comment> \<open>the characters \<^verbatim>\<open>str.strip()\<close> removes: TAB..CR, FS..US, space, NEL, NBSP\<close>
  "py_isspace c = (let n = (of_char c :: nat) in
     (9 \<le> n \<and> n \<le> 13) \<or> (28 \<le> n \<and> n \<le> 32) \<or> n = 133 \<or> n = 160)"

definition py_strip :: "string \<Rightarrow> string" where
  "py_strip s = rev (dropWhile py_isspace (rev (dropWhile py_isspace s)))"

definition py_lower_char :: "char \<Rightarrow> char" where
  \<comment> \<open>A..Z and the capital letters 0xC0..0xDE (0xD7 is the multiplication sign) move up
      by 32; bit 5 is clear on both ranges, so adding 32 sets it\<close>
  "py_lower_char c = (let n = (of_char c :: nat) in
     if (65 \<le> n \<and> n \<le> 90) \<or> (192 \<le> n \<and> n \<le> 222 \<and> n \<noteq> 215)
     then (case c of Char b0 b1 b2 b3 b4 b5 b6 b7 \<Rightarrow> Char b0 b1 b2 b3 b4 True b6 b7)
     else c)"

definition py_lower :: "string \<Rightarrow> string" where
  "py_lower s = map py_lower_char s"

definition py_isdigit_char :: "char \<Rightarrow> bool" where
  \<comment> \<open>\<^verbatim>\<open>str.isdigit\<close>: 0..9 and the superscript digits two, three and one\<close>
  "py_isdigit_char c = (let n = (of_char c :: nat) in
     (48 \<le> n \<and> n \<le> 57) \<or> n = 178 \<or> n = 179 \<or> n = 185)"

definition py_isdigit :: "string \<Rightarrow> bool" where
  \<comment> \<open>false on the empty string, as in Python\<close>
  "py_isdigit s = (s \<noteq> [] \<and> list_all py_isdigit_char s)"

fun split_virgula :: "string \<Rightarrow> string list" where
  \<comment> \<open>\<^verbatim>\<open>s.split(",")\<close>: one more piece than there are commas\<close>
  "split_virgula [] = [[]]"
| "split_virgula (c # cs) =
     (if c = CHR '','' then [] # split_virgula cs
      else (case split_virgula cs of
              [] \<Rightarrow> [[c]]
            | w # ws \<Rightarrow> (c # w) # ws))"

definition encode_utf8 :: "string \<Rightarrow> string" where
  \<comment> \<open>\<^verbatim>\<open>s.encode('utf-8')\<close>: one byte below 128, two bytes from 128 to 255\<close>
  "encode_utf8 s = concat (map (\<lambda>c. case c of Char b0 b1 b2 b3 b4 b5 b6 b7 \<Rightarrow>
       if b7 then [Char b6 b7 False False False False True True,
                   Char b0 b1 b2 b3 b4 b5 False True]
       else [c]) s)"

definition resposta_sim :: "string \<Rightarrow> bool" where
  \<comment> \<open>\<^verbatim>\<open>input().strip().upper() == "S"\<close>: on the modelled range only s and S
      have the upper case S\<close>
  "resposta_sim r = (py_strip r = ''S'' \<or> py_strip r = ''s'')"

section \<open>The data model (models.py)\<close>

type_synonym datetime = nat

record empresa =
  e_id :: int
  e_nome :: string
  e_cnpj :: string
  e_segmento :: string
  e_ativa :: bool
  e_data_cadastro :: datetime
  e_data_atualizacao :: datetime

record usuario =
  u_id :: int
  u_empresa_id :: int
  u_nome :: string
  u_email :: string
  u_senha_hash :: string
  u_ativo :: bool
  u_is_admin :: bool
  u_ultimo_login :: "datetime option"
  u_data_cadastro :: datetime
  u_data_atualizacao :: datetime

record permissao =
  p_id :: int
  p_codigo :: string
  p_nome :: string
  p_descricao :: string
  p_ativa :: bool

text \<open>
  The committed contents of the four tables. \<^verbatim>\<open>usuario_permissoes\<close> is the
  association table of rows (usuario_id, permissao_id).
\<close>

record banco =
  empresas :: "empresa list"
  usuarios :: "usuario list"
  permissoes :: "permissao list"
  usuario_permissoes :: "(int \<times> int) list"

definition novo_id :: "int list \<Rightarrow> int" where
  \<comment> \<open>the key an integer primary key column gets on INSERT: 1 in an empty table,
      otherwise one more than the largest key in use\<close>
  "novo_id ids = (case ids of [] \<Rightarrow> 1 | x # xs \<Rightarrow> fold max xs x + 1)"

definition permissoes_de :: "banco \<Rightarrow> usuario \<Rightarrow> permissao list" where
  \<comment> \<open>the relationship \<^verbatim>\<open>Usuario.permissoes\<close>, loaded through the association table\<close>
  "permissoes_de db u =
     filter (\<lambda>p. (u_id u, p_id p) \<in> set (usuario_permissoes db)) (permissoes db)"

definition tem_permissao :: "banco \<Rightarrow> usuario \<Rightarrow> string \<Rightarrow> bool" where
  "tem_permissao db u codigo_modulo =
     (if u_is_admin u then True
      else list_ex (\<lambda>p. p_codigo p = codigo_modulo \<and> p_ativa p) (permissoes_de db u))"

subsection \<open>The default permissions\<close>

definition permissoes_padrao :: "(string \<times> string \<times> string) list" where
  "permissoes_padrao =
    [(''operacional'', ''M'' @ [CHR 0xF3] @ ''dulo Operacional'',
        ''Acesso ao c'' @ [CHR 0xE1] @ ''lculo de capacidade produtiva''),
     (''estoque_entrada'', ''Estoque - Entrada'',
        ''Cadastro de entrada de produtos no estoque''),
     (''estoque_saida'', ''Estoque - Sa'' @ [CHR 0xED] @ ''da'',
        ''Registro de sa'' @ [CHR 0xED] @ ''da e vendas de produtos''),
     (''financeiro'', ''M'' @ [CHR 0xF3] @ ''dulo Financeiro'',
        ''Acesso a an'' @ [CHR 0xE1] @ ''lise de custos e lucros''),
     (''rh'', ''M'' @ [CHR 0xF3] @ ''dulo RH'',
        ''Acesso '' @ [CHR 0xE0] @ '' folha de pagamento e gest'' @ [CHR 0xE3]
          @ ''o de funcion'' @ [CHR 0xE1] @ ''rios'')]"

definition inserir_padrao :: "string \<times> string \<times> string \<Rightarrow> permissao list \<Rightarrow> permissao list" where
  \<comment> \<open>the body of the loop: query by code, add the row when there is none\<close>
  "inserir_padrao perm_data ps =
     (case perm_data of (cod, nome, descr) \<Rightarrow>
        (case find (\<lambda>p. p_codigo p = cod) ps of
           Some existe \<Rightarrow> ps
         | None \<Rightarrow> ps @ [\<lparr>p_id = novo_id (map p_id ps), p_codigo = cod, p_nome = nome,
                           p_descricao = descr, p_ativa = True\<rparr>]))"

definition criar_permissoes_padrao :: "banco \<Rightarrow> banco" where
  "criar_permissoes_padrao db =
     db\<lparr>permissoes := fold inserir_padrao permissoes_padrao (permissoes db)\<rparr>"

subsection \<open>The logged-in user (main\_auth.py)\<close>

definition verificar_permissao :: "banco \<Rightarrow> usuario option \<Rightarrow> string \<Rightarrow> bool" where
  "verificar_permissao db usuario_logado codigo_modulo =
     (case usuario_logado of
        None \<Rightarrow> False
      | Some u \<Rightarrow> tem_permissao db u codigo_modulo)"

section \<open>Password hashing (auth\_utils)\<close>

text \<open>
  \<^verbatim>\<open>hash_password\<close> calls the bcrypt library: \<^verbatim>\<open>gensalt(rounds=12)\<close> returns the
  prefix \<^verbatim>\<open>$2b$12$\<close> followed by the 22 characters that encode 16 random bytes, and
  \<^verbatim>\<open>hashpw\<close> returns that salt followed by the digest. The random characters drawn
  (\<open>sal\<close>) and the library's digest function (\<open>kdf\<close>) are parameters.
\<close>

definition gensalt :: "string \<Rightarrow> string" where
  "gensalt sal = ''$2b$12$'' @ sal"

definition hashpw :: "(string \<Rightarrow> string \<Rightarrow> string) \<Rightarrow> string \<Rightarrow> string \<Rightarrow> string" where
  "hashpw kdf password_bytes salt = salt @ kdf salt password_bytes"

definition hash_password :: "(string \<Rightarrow> string \<Rightarrow> string) \<Rightarrow> string \<Rightarrow> string \<Rightarrow> string" where
  "hash_password kdf sal password =
     (let password_bytes = encode_utf8 password;
          salt = gensalt sal;
          hashed = hashpw kdf password_bytes salt
      in hashed)"

text \<open>
  Modelled from the spec: \<^verbatim>\<open>auth_utils.verify_password\<close> is imported by
  gestao\_usuarios.py and is not among the source files. Spec 4.1: it recomputes the
  digest from the salt and cost factor embedded in the stored hash (its first 29
  characters) and compares; a malformed stored hash gives False.
\<close>

definition verify_password :: "(string \<Rightarrow> string \<Rightarrow> string) \<Rightarrow> string \<Rightarrow> string \<Rightarrow> bool" where
  "verify_password kdf password hashed =
     (29 \<le> length hashed \<and> hashpw kdf (encode_utf8 password) (take 29 hashed) = hashed)"

section \<open>Companies and users (gestao\_usuarios.py)\<close>

text \<open>
  Each operation takes the committed store and the operator's replies to its prompts and
  returns what it reports together with the store it leaves. An error return is the
  \<open>Inl\<close> of the message printed. Clock readings (\<^verbatim>\<open>datetime.utcnow\<close>) and Python's
  \<^verbatim>\<open>int\<close> are parameters. \<open>cadastrar_empresa\<close> and \<open>cadastrar_usuario\<close> are the runs
  in which the database session raises nothing; \<open>cadastrar_empresa_sessao\<close> and
  \<open>cadastrar_usuario_sessao\<close> further down add their \<^verbatim>\<open>except Exception\<close> branches.
\<close>

datatype erro_empresa =
    Nome_empresa_curto
  | Cnpj_invalido
  | Cnpj_ja_cadastrado
  | Erro_ao_cadastrar_empresa

definition segmentos :: "(string \<times> string) list" where
  "segmentos =
    [(''1'', ''Ind'' @ [CHR 0xFA] @ ''stria''),
     (''2'', ''Com'' @ [CHR 0xE9] @ ''rcio''),
     (''3'', ''Servi'' @ [CHR 0xE7] @ ''os''),
     (''4'', ''Log'' @ [CHR 0xED] @ ''stica''),
     (''5'', ''Outro'')]"

definition cadastrar_empresa ::
  "datetime \<Rightarrow> banco \<Rightarrow> string \<Rightarrow> string \<Rightarrow> string \<Rightarrow> (erro_empresa + empresa) \<times> banco" where
  "cadastrar_empresa agora db nome_in cnpj_in seg_in =
     (let nome = py_strip nome_in in
      if length nome < 3 then (Inl Nome_empresa_curto, db)
      else
        let cnpj = py_strip cnpj_in in
        if length cnpj \<noteq> 14 \<or> \<not> py_isdigit cnpj then (Inl Cnpj_invalido, db)
        else if find (\<lambda>e. e_cnpj e = cnpj) (empresas db) \<noteq> None
        then (Inl Cnpj_ja_cadastrado, db)
        else
          let seg_opcao = py_strip seg_in;
              segmento = (case map_of segmentos seg_opcao of
                            Some s \<Rightarrow> s
                          | None \<Rightarrow> ''N'' @ [CHR 0xE3] @ ''o especificado'');
              empresa = \<lparr>e_id = novo_id (map e_id (empresas db)), e_nome = nome,
                         e_cnpj = cnpj, e_segmento = segmento, e_ativa = True,
                         e_data_cadastro = agora, e_data_atualizacao = agora\<rparr>
          in (Inr empresa, db\<lparr>empresas := empresas db @ [empresa]\<rparr>))"

subsection \<open>Permission assignment\<close>

datatype saida_config =
    Id_usuario_invalido
  | Usuario_nao_encontrado
  | Usuario_administrador
  | Config_AttributeError
  | Escolha_invalida
  | Erro_ao_configurar
  | Permissoes_removidas
  | Acesso_todos
  | Permissoes_configuradas

definition ler_ids :: "(string \<Rightarrow> int option) \<Rightarrow> string \<Rightarrow> int list option" where
  \<comment> \<open>\<^verbatim>\<open>[int(id.strip()) for id in escolha.split(",")]\<close>; None is the ValueError\<close>
  "ler_ids py_int escolha = those (map (\<lambda>i. py_int (py_strip i)) (split_virgula escolha))"

text \<open>
  A session holds the rows as of the last commit and the rows as its open transaction has
  them. The session object is built outside the source files, so two things about it are
  parameters. \<open>falha = Some k\<close> says that the \<open>k\<close>-th call (from 0) a \<^verbatim>\<open>try\<close> block
  makes to the session raises, \<open>falha = None\<close> that none does. \<open>autoflush\<close> says
  whether the session writes its pending changes before each query.
\<close>

record sessao =
  confirmado :: banco
  pendente :: banco

definition sem_pendencias :: "banco \<Rightarrow> sessao" where
  "sem_pendencias db = \<lparr>confirmado = db, pendente = db\<rparr>"

definition commit :: "sessao \<Rightarrow> sessao" where
  "commit s = \<lparr>confirmado = pendente s, pendente = pendente s\<rparr>"

definition rollback :: "sessao \<Rightarrow> sessao" where
  "rollback s = \<lparr>confirmado = confirmado s, pendente = confirmado s\<rparr>"

definition substituir_permissoes :: "int \<Rightarrow> int list \<Rightarrow> sessao \<Rightarrow> sessao" where
  \<comment> \<open>the open transaction once the rows of user \<open>uid\<close> have been replaced by one row
      per element of \<open>colecao\<close>; the rows of other users stay\<close>
  "substituir_permissoes uid colecao s =
     s\<lparr>pendente := (pendente s)\<lparr>usuario_permissoes :=
          filter (\<lambda>(u, p). u \<noteq> uid) (usuario_permissoes (pendente s))
            @ map (Pair uid) colecao\<rparr>\<rparr>"

fun anexar_ids :: "nat option \<Rightarrow> permissao list \<Rightarrow> int list \<Rightarrow> int list \<Rightarrow> bool \<times> int list" where
  \<comment> \<open>the loop over \<^verbatim>\<open>ids_escolhidos\<close>: one query per id, the permission found is
      appended to the collection; the result says whether a query raised, and what the
      collection held by then\<close>
  "anexar_ids falha perms [] colecao = (False, colecao)"
| "anexar_ids falha perms (perm_id # ids) colecao =
     (if falha = Some 0 then (True, colecao)
      else anexar_ids (map_option (\<lambda>k. k - 1) falha) perms ids
             (case find (\<lambda>p. p_id p = perm_id) perms of
                None \<Rightarrow> colecao
              | Some permissao \<Rightarrow> colecao @ [p_id permissao]))"

definition configurar_permissoes_usuario ::
  "(string \<Rightarrow> int option) \<Rightarrow> bool \<Rightarrow> nat option \<Rightarrow> banco \<Rightarrow> int option \<Rightarrow> string
     \<Rightarrow> string \<Rightarrow> saida_config \<times> sessao" where
  \<comment> \<open>in the \<^verbatim>\<open>try\<close> block the session is called once per chosen id (the query) and once
      more for the commit; \<^verbatim>\<open>except ValueError\<close> does not roll back, \<^verbatim>\<open>except
      Exception\<close> does. The loop appends a permission again for an id that is repeated;
      \<^verbatim>\<open>usuario_permissoes\<close> is keyed by the pair of its columns (\<^verbatim>\<open>models.py\<close> 16-21).
      An autoflushing session has written the first append by the time of the second (a
      query comes before each append), which then adds no row. Without autoflush the
      commit inserts one row per element of the list and the key rejects the second\<close>
  "configurar_permissoes_usuario py_int autoflush falha db usuario_id id_in escolha_in =
     (case (case usuario_id of None \<Rightarrow> py_int id_in | Some i \<Rightarrow> Some i) of
        None \<Rightarrow> (Id_usuario_invalido, sem_pendencias db)
      | Some uid \<Rightarrow>
         (case find (\<lambda>u. u_id u = uid) (usuarios db) of
            None \<Rightarrow> (Usuario_nao_encontrado, sem_pendencias db)
          | Some usuario \<Rightarrow>
             if u_is_admin usuario then (Usuario_administrador, sem_pendencias db)
             else
               (case find (\<lambda>e. e_id e = u_empresa_id usuario) (empresas db) of
                  None \<Rightarrow> (Config_AttributeError, sem_pendencias db)
                | Some empresa \<Rightarrow>
                   let db1 = (if filter p_ativa (permissoes db) = []
                              then criar_permissoes_padrao db else db);
                       permissoes_ativas = filter p_ativa (permissoes db1);
                       escolha = py_lower (py_strip escolha_in);
                       s = sem_pendencias db1
                   in if escolha = ''nenhum''
                      then
                        (let s1 = substituir_permissoes uid [] s
                         in if falha = Some 0 then (Erro_ao_configurar, rollback s1)
                            else (Permissoes_removidas, commit s1))
                      else if escolha = ''todos''
                      then
                        (let s1 = substituir_permissoes uid (map p_id permissoes_ativas) s
                         in if falha = Some 0 then (Erro_ao_configurar, rollback s1)
                            else (Acesso_todos, commit s1))
                      else
                        (case ler_ids py_int escolha of
                           None \<Rightarrow> (Escolha_invalida, s)
                         | Some ids_escolhidos \<Rightarrow>
                            (case anexar_ids falha (permissoes db1) ids_escolhidos [] of
                               (levantou, colecao) \<Rightarrow>
                                 let s1 = substituir_permissoes uid
                                            (if autoflush then remdups colecao else colecao) s
                                 in if levantou \<or> \<not> autoflush \<and> \<not> distinct colecao \<or>
                                       falha = Some (length ids_escolhidos)
                                    then (Erro_ao_configurar, rollback s1)
                                    else (Permissoes_configuradas, commit s1))))))"

subsection \<open>User registration\<close>

datatype erro_usuario =
    Sem_empresa_ativa
  | Id_empresa_invalido
  | Empresa_nao_encontrada
  | Nome_curto
  | Email_invalido
  | Email_ja_cadastrado
  | Senha_curta
  | Senhas_diferentes
  | Erro_ao_cadastrar_usuario

record entrada_usuario =
  in_empresa_id :: string
  in_nome :: string
  in_email :: string
  in_senha :: string
  in_confirma_senha :: string
  in_is_admin :: string
  in_configurar :: string
  in_escolha :: string

definition cadastrar_usuario ::
  "(string \<Rightarrow> int option) \<Rightarrow> (string \<Rightarrow> string \<Rightarrow> string) \<Rightarrow> string \<Rightarrow> datetime \<Rightarrow> banco
     \<Rightarrow> entrada_usuario \<Rightarrow> (erro_usuario + usuario) \<times> banco" where
  "cadastrar_usuario py_int kdf sal agora db ent =
     (if filter e_ativa (empresas db) = [] then (Inl Sem_empresa_ativa, db)
      else
        (case py_int (in_empresa_id ent) of
           None \<Rightarrow> (Inl Id_empresa_invalido, db)
         | Some empresa_id \<Rightarrow>
            (case find (\<lambda>e. e_id e = empresa_id) (empresas db) of
               None \<Rightarrow> (Inl Empresa_nao_encontrada, db)
             | Some empresa \<Rightarrow>
                let nome = py_strip (in_nome ent) in
                if length nome < 3 then (Inl Nome_curto, db)
                else
                  let email = py_lower (py_strip (in_email ent)) in
                  if CHR ''@'' \<notin> set email \<or> CHR ''.'' \<notin> set email
                  then (Inl Email_invalido, db)
                  else if find (\<lambda>u. u_email u = email) (usuarios db) \<noteq> None
                  then (Inl Email_ja_cadastrado, db)
                  else
                    let senha = in_senha ent in
                    if length senha < 6 then (Inl Senha_curta, db)
                    else if senha \<noteq> in_confirma_senha ent then (Inl Senhas_diferentes, db)
                    else
                      let is_admin = resposta_sim (in_is_admin ent);
                          senha_hash = hash_password kdf sal senha;
                          usuario = \<lparr>u_id = novo_id (map u_id (usuarios db)),
                                     u_empresa_id = e_id empresa, u_nome = nome,
                                     u_email = email, u_senha_hash = senha_hash,
                                     u_ativo = True, u_is_admin = is_admin,
                                     u_ultimo_login = None, u_data_cadastro = agora,
                                     u_data_atualizacao = agora\<rparr>;
                          db1 = db\<lparr>usuarios := usuarios db @ [usuario]\<rparr>
                      in if \<not> is_admin \<and> resposta_sim (in_configurar ent)
                         then (Inr usuario,
                               confirmado
                                 (snd (configurar_permissoes_usuario py_int True None db1
                                         (Some (u_id usuario)) [] (in_escolha ent))))
                         else (Inr usuario, db1))))"

subsection \<open>Login\<close>

datatype erro_login =
    Email_ou_senha_incorretos
  | Usuario_inativo
  | Empresa_inativa
  | Login_AttributeError

definition fazer_login ::
  "(string \<Rightarrow> string \<Rightarrow> bool) \<Rightarrow> datetime \<Rightarrow> datetime \<Rightarrow> banco \<Rightarrow> string \<Rightarrow> string
     \<Rightarrow> (erro_login + usuario) \<times> banco" where
  \<comment> \<open>\<open>agora\<close> is the reading assigned to \<^verbatim>\<open>ultimo_login\<close>, \<open>agora_commit\<close> the one the
      \<^verbatim>\<open>onupdate\<close> default of \<^verbatim>\<open>data_atualizacao\<close> takes when the UPDATE is flushed\<close>
  "fazer_login verify agora agora_commit db email_in senha =
     (let email = py_lower (py_strip email_in) in
      case find (\<lambda>u. u_email u = email) (usuarios db) of
        None \<Rightarrow> (Inl Email_ou_senha_incorretos, db)
      | Some usuario \<Rightarrow>
         if \<not> u_ativo usuario then (Inl Usuario_inativo, db)
         else
           (case find (\<lambda>e. e_id e = u_empresa_id usuario) (empresas db) of
              None \<Rightarrow> (Inl Login_AttributeError, db)
            | Some empresa \<Rightarrow>
               if \<not> e_ativa empresa then (Inl Empresa_inativa, db)
               else if \<not> verify senha (u_senha_hash usuario)
               then (Inl Email_ou_senha_incorretos, db)
               else
                 let registrar = (\<lambda>u. u\<lparr>u_ultimo_login := Some agora,
                                           u_data_atualizacao := agora_commit\<rparr>)
                 in (Inr (registrar usuario),
                     db\<lparr>usuarios := map (\<lambda>u. if u_id u = u_id usuario then registrar u else u)
                                        (usuarios db)\<rparr>)))"

subsection \<open>Registration when the session raises\<close>

text \<open>
  The \<^verbatim>\<open>try\<close> block of \<^verbatim>\<open>cadastrar_empresa\<close> calls the session for the CNPJ query,
  the commit and the refresh of the new row; that of \<^verbatim>\<open>cadastrar_usuario\<close> for the
  company query, the email query, the commit and the refresh, and then runs the
  permission assignment, which has a \<^verbatim>\<open>try\<close> block of its own (\<open>falha_config\<close>; the
  queries it makes before that block are taken to return). \<^verbatim>\<open>except Exception\<close> rolls
  back and reports the error, which after the commit undoes nothing;
  \<^verbatim>\<open>except ValueError\<close> only reports.
\<close>

definition cadastrar_empresa_sessao ::
  "nat option \<Rightarrow> datetime \<Rightarrow> banco \<Rightarrow> string \<Rightarrow> string \<Rightarrow> string
     \<Rightarrow> (erro_empresa + empresa) \<times> sessao" where
  "cadastrar_empresa_sessao falha agora db nome_in cnpj_in seg_in =
     (let s = sem_pendencias db;
          nome = py_strip nome_in
      in if length nome < 3 then (Inl Nome_empresa_curto, s)
      else
        let cnpj = py_strip cnpj_in in
        if length cnpj \<noteq> 14 \<or> \<not> py_isdigit cnpj then (Inl Cnpj_invalido, s)
        else if falha = Some 0 then (Inl Erro_ao_cadastrar_empresa, rollback s)
        else if find (\<lambda>e. e_cnpj e = cnpj) (empresas db) \<noteq> None
        then (Inl Cnpj_ja_cadastrado, s)
        else
          let seg_opcao = py_strip seg_in;
              segmento = (case map_of segmentos seg_opcao of
                            Some g \<Rightarrow> g
                          | None \<Rightarrow> ''N'' @ [CHR 0xE3] @ ''o especificado'');
              empresa = \<lparr>e_id = novo_id (map e_id (empresas db)), e_nome = nome,
                         e_cnpj = cnpj, e_segmento = segmento, e_ativa = True,
                         e_data_cadastro = agora, e_data_atualizacao = agora\<rparr>;
              s1 = s\<lparr>pendente := db\<lparr>empresas := empresas db @ [empresa]\<rparr>\<rparr>
          in if falha = Some 1 then (Inl Erro_ao_cadastrar_empresa, rollback s1)
             else if falha = Some 2 then (Inl Erro_ao_cadastrar_empresa, rollback (commit s1))
             else (Inr empresa, commit s1))"

definition cadastrar_usuario_sessao ::
  "(string \<Rightarrow> int option) \<Rightarrow> (string \<Rightarrow> string \<Rightarrow> string) \<Rightarrow> string \<Rightarrow> datetime
     \<Rightarrow> bool \<Rightarrow> nat option \<Rightarrow> nat option \<Rightarrow> banco \<Rightarrow> entrada_usuario
     \<Rightarrow> (erro_usuario + usuario) \<times> sessao" where
  "cadastrar_usuario_sessao py_int kdf sal agora autoflush falha falha_config db ent =
     (let s = sem_pendencias db
      in if filter e_ativa (empresas db) = [] then (Inl Sem_empresa_ativa, s)
      else
        (case py_int (in_empresa_id ent) of
           None \<Rightarrow> (Inl Id_empresa_invalido, s)
         | Some empresa_id \<Rightarrow>
            if falha = Some 0 then (Inl Erro_ao_cadastrar_usuario, rollback s)
            else
            (case find (\<lambda>e. e_id e = empresa_id) (empresas db) of
               None \<Rightarrow> (Inl Empresa_nao_encontrada, s)
             | Some empresa \<Rightarrow>
                let nome = py_strip (in_nome ent) in
                if length nome < 3 then (Inl Nome_curto, s)
                else
                  let email = py_lower (py_strip (in_email ent)) in
                  if CHR ''@'' \<notin> set email \<or> CHR ''.'' \<notin> set email
                  then (Inl Email_invalido, s)
                  else if falha = Some 1 then (Inl Erro_ao_cadastrar_usuario, rollback s)
                  else if find (\<lambda>u. u_email u = email) (usuarios db) \<noteq> None
                  then (Inl Email_ja_cadastrado, s)
                  else
                    let senha = in_senha ent in
                    if length senha < 6 then (Inl Senha_curta, s)
                    else if senha \<noteq> in_confirma_senha ent then (Inl Senhas_diferentes, s)
                    else
                      let is_admin = resposta_sim (in_is_admin ent);
                          senha_hash = hash_password kdf sal senha;
                          usuario = \<lparr>u_id = novo_id (map u_id (usuarios db)),
                                     u_empresa_id = e_id empresa, u_nome = nome,
                                     u_email = email, u_senha_hash = senha_hash,
                                     u_ativo = True, u_is_admin = is_admin,
                                     u_ultimo_login = None, u_data_cadastro = agora,
                                     u_data_atualizacao = agora\<rparr>;
                          s1 = s\<lparr>pendente := db\<lparr>usuarios := usuarios db @ [usuario]\<rparr>\<rparr>
                      in if falha = Some 2 then (Inl Erro_ao_cadastrar_usuario, rollback s1)
                         else if falha = Some 3
                         then (Inl Erro_ao_cadastrar_usuario, rollback (commit s1))
                         else if \<not> is_admin \<and> resposta_sim (in_configurar ent)
                         then (Inr usuario,
                               snd (configurar_permissoes_usuario py_int autoflush falha_config
                                      (confirmado (commit s1)) (Some (u_id usuario)) []
                                      (in_escolha ent)))
                         else (Inr usuario, commit s1))))"

section \<open>A worked store\<close>

text \<open>
  Concrete data on which the theorems below are instantiated: two companies (the second
  inactive), four users, three permissions (the third inactive). \<open>kdf_exemplo\<close> and
  \<open>int_decimal\<close> take the place of the bcrypt digest and of Python's \<^verbatim>\<open>int\<close> on
  plain decimal numerals; every theorem is stated for arbitrary ones.
\<close>

definition dados :: "permissao \<Rightarrow> string \<times> string \<times> string" where
  \<comment> \<open>the three columns a catalogue entry gives\<close>
  "dados p = (p_codigo p, p_nome p, p_descricao p)"

definition kdf_exemplo :: "string \<Rightarrow> string \<Rightarrow> string" where
  "kdf_exemplo salt password_bytes = take 31 (rev password_bytes @ replicate 31 (CHR ''.''))"

definition sal_exemplo :: string where
  "sal_exemplo = ''abcdefghijklmnopqrstuv''"

fun digitos :: "string \<Rightarrow> nat \<Rightarrow> nat option" where
  "digitos [] acc = Some acc"
| "digitos (c # cs) acc =
     (let n = (of_char c :: nat) in
      if 48 \<le> n \<and> n \<le> 57 then digitos cs (10 * acc + (n - 48)) else None)"

definition int_decimal :: "string \<Rightarrow> int option" where
  "int_decimal s =
     (case s of
        [] \<Rightarrow> None
      | c # cs \<Rightarrow>
         if c = CHR ''-'' then (if cs = [] then None else map_option (\<lambda>n. - int n) (digitos cs 0))
         else map_option int (digitos s 0))"

definition empresa_acme :: empresa where
  "empresa_acme = \<lparr>e_id = 1, e_nome = ''Acme Ltda'', e_cnpj = ''12345678901234'',
     e_segmento = ''Outro'', e_ativa = True, e_data_cadastro = 10, e_data_atualizacao = 10\<rparr>"

definition empresa_parada :: empresa where
  "empresa_parada = \<lparr>e_id = 2, e_nome = ''Parada SA'', e_cnpj = ''98765432109876'',
     e_segmento = ''Outro'', e_ativa = False, e_data_cadastro = 11, e_data_atualizacao = 12\<rparr>"

definition usuario_ana :: usuario where
  "usuario_ana = \<lparr>u_id = 1, u_empresa_id = 1, u_nome = ''Ana Lima'', u_email = ''ana@acme.com'',
     u_senha_hash = hash_password kdf_exemplo sal_exemplo ''segredo1'', u_ativo = True,
     u_is_admin = True, u_ultimo_login = None, u_data_cadastro = 20, u_data_atualizacao = 20\<rparr>"

definition usuario_bia :: usuario where
  "usuario_bia = \<lparr>u_id = 2, u_empresa_id = 1, u_nome = ''Bia Reis'', u_email = ''bia@acme.com'',
     u_senha_hash = hash_password kdf_exemplo sal_exemplo ''bia12345'', u_ativo = True,
     u_is_admin = False, u_ultimo_login = None, u_data_cadastro = 21, u_data_atualizacao = 21\<rparr>"

definition usuario_caio :: usuario where
  "usuario_caio = \<lparr>u_id = 3, u_empresa_id = 2, u_nome = ''Caio Luz'', u_email = ''caio@parada.com'',
     u_senha_hash = hash_password kdf_exemplo sal_exemplo ''caio9876'', u_ativo = True,
     u_is_admin = False, u_ultimo_login = None, u_data_cadastro = 22, u_data_atualizacao = 22\<rparr>"

definition usuario_dora :: usuario where
  "usuario_dora = \<lparr>u_id = 4, u_empresa_id = 1, u_nome = ''Dora Paz'', u_email = ''dora@acme.com'',
     u_senha_hash = hash_password kdf_exemplo sal_exemplo ''dora4321'', u_ativo = False,
     u_is_admin = False, u_ultimo_login = None, u_data_cadastro = 23, u_data_atualizacao = 23\<rparr>"

definition perm_operacional :: permissao where
  "perm_operacional = \<lparr>p_id = 1, p_codigo = ''operacional'', p_nome = ''Operacional'',
     p_descricao = ''Capacidade produtiva'', p_ativa = True\<rparr>"

definition perm_financeiro :: permissao where
  "perm_financeiro = \<lparr>p_id = 2, p_codigo = ''financeiro'', p_nome = ''Financeiro'',
     p_descricao = ''Custos e lucros'', p_ativa = True\<rparr>"

definition perm_rh :: permissao where
  "perm_rh = \<lparr>p_id = 3, p_codigo = ''rh'', p_nome = ''RH'',
     p_descricao = ''Folha de pagamento'', p_ativa = False\<rparr>"

definition banco_exemplo :: banco where
  "banco_exemplo = \<lparr>empresas = [empresa_acme, empresa_parada],
     usuarios = [usuario_ana, usuario_bia, usuario_caio, usuario_dora],
     permissoes = [perm_operacional, perm_financeiro, perm_rh],
     usuario_permissoes = [(2, 1), (2, 3)]\<rparr>"

definition banco_vazio :: banco where
  "banco_vazio = \<lparr>empresas = [], usuarios = [], permissoes = [], usuario_permissoes = []\<rparr>"

definition entrada_eva :: entrada_usuario where
  "entrada_eva = \<lparr>in_empresa_id = ''2'', in_nome = ''Eva Sol'', in_email = ''Eva@Parada.com'',
     in_senha = ''eva12345'', in_confirma_senha = ''eva12345'', in_is_admin = ''N'',
     in_configurar = ''N'', in_escolha = []\<rparr>"

definition usuario_eva :: usuario where
  "usuario_eva = \<lparr>u_id = 5, u_empresa_id = 2, u_nome = ''Eva Sol'', u_email = ''eva@parada.com'',
     u_senha_hash = hash_password kdf_exemplo sal_exemplo ''eva12345'', u_ativo = True,
     u_is_admin = False, u_ultimo_login = None, u_data_cadastro = 60, u_data_atualizacao = 60\<rparr>"


lemmas exemplo_defs =
  empresa_acme_def empresa_parada_def usuario_ana_def usuario_bia_def usuario_caio_def
  usuario_dora_def perm_operacional_def perm_financeiro_def perm_rh_def banco_exemplo_def

section \<open>Authorization\<close>

text \<open>
  C9. With no user logged in (\<^verbatim>\<open>usuario_logado is None\<close>) the module-level check
  \<^verbatim>\<open>verificar_permissao\<close> answers False for every module code, in every store.
\<close>

theorem verificar_permissao_sem_login:
  "verificar_permissao db None codigo_modulo = False"
  by (simp add: verificar_permissao_def)

text \<open>
  C2. \<^verbatim>\<open>Usuario.tem_permissao\<close>: an administrator is granted every module code
  whatever the granted set; for any other user the answer is true exactly when the
  granted set holds a permission with that code whose \<^verbatim>\<open>ativa\<close> flag is set. So a
  user who is no administrator and has an empty granted set is denied every code.
\<close>

theorem tem_permissao_decisao:
  "(u_is_admin u \<longrightarrow> tem_permissao db u c) \<and>
   (\<not> u_is_admin u \<longrightarrow>
      tem_permissao db u c = (\<exists>p\<in>set (permissoes_de db u). p_codigo p = c \<and> p_ativa p)) \<and>
   (\<not> u_is_admin u \<and> permissoes_de db u = [] \<longrightarrow> \<not> tem_permissao db u c)"
  by (auto simp: tem_permissao_def list_ex_iff)

theorem tem_permissao_decisao_witness:
  "u_is_admin usuario_ana \<and> tem_permissao banco_exemplo usuario_ana ''rh'' \<and>
   \<not> u_is_admin usuario_bia \<and> tem_permissao banco_exemplo usuario_bia ''operacional'' \<and>
   \<not> tem_permissao banco_exemplo usuario_bia ''rh'' \<and>
   \<not> u_is_admin usuario_caio \<and> permissoes_de banco_exemplo usuario_caio = [] \<and>
   \<not> tem_permissao banco_exemplo usuario_caio ''operacional''"
  using tem_permissao_decisao[of usuario_ana banco_exemplo "''rh''"]
    tem_permissao_decisao[of usuario_bia banco_exemplo "''operacional''"]
    tem_permissao_decisao[of usuario_bia banco_exemplo "''rh''"]
    tem_permissao_decisao[of usuario_caio banco_exemplo "''operacional''"]
  by (simp add: exemplo_defs permissoes_de_def)

section \<open>Seeding the default permissions\<close>



lemma inserir_padrao_presente:
  "fst d \<in> p_codigo ` set ps \<Longrightarrow> inserir_padrao d ps = ps"
  by (cases d) (auto simp: inserir_padrao_def find_None_iff split: option.splits)

lemma inserir_padrao_ausente:
  "fst d \<notin> p_codigo ` set ps \<Longrightarrow>
   \<exists>r. inserir_padrao d ps = ps @ [r] \<and> dados r = d \<and> p_ativa r \<and> p_id r = novo_id (map p_id ps)"
  by (cases d) (auto simp: inserir_padrao_def find_None_iff dados_def split: option.splits)

lemma fold_inserir_padrao:
  "distinct (map fst ds) \<Longrightarrow>
   \<exists>novas. fold inserir_padrao ds ps = ps @ novas \<and>
           map dados novas = filter (\<lambda>d. fst d \<notin> p_codigo ` set ps) ds \<and>
           list_all p_ativa novas"
proof (induction ds arbitrary: ps)
  case Nil
  then show ?case by simp
next
  case (Cons d ds)
  have dist: "distinct (map fst ds)" and fresh: "fst d \<notin> fst ` set ds"
    using Cons.prems by auto
  show ?case
  proof (cases "fst d \<in> p_codigo ` set ps")
    case True
    then show ?thesis
      using Cons.IH[OF dist, of ps] by (simp add: inserir_padrao_presente)
  next
    case False
    then obtain r where r: "inserir_padrao d ps = ps @ [r]" "dados r = d" "p_ativa r"
      using inserir_padrao_ausente by blast
    obtain novas where n: "fold inserir_padrao ds (ps @ [r]) = (ps @ [r]) @ novas"
      "map dados novas = filter (\<lambda>d. fst d \<notin> p_codigo ` set (ps @ [r])) ds"
      "list_all p_ativa novas"
      using Cons.IH[OF dist, of "ps @ [r]"] by blast
    have cod: "p_codigo r = fst d" using r(2) by (auto simp: dados_def)
    have "\<And>x. x \<in> set ds \<Longrightarrow> fst x \<noteq> fst d"
      using fresh by (metis image_eqI)
    then have "filter (\<lambda>d. fst d \<notin> p_codigo ` set (ps @ [r])) ds
        = filter (\<lambda>d. fst d \<notin> p_codigo ` set ps) ds"
      using cod by (intro filter_cong) auto
    then show ?thesis using r n False by auto
  qed
qed


lemma fold_inserir_padrao_presentes:
  "\<forall>d\<in>set ds. fst d \<in> p_codigo ` set ps \<Longrightarrow> fold inserir_padrao ds ps = ps"
  by (induction ds) (simp_all add: inserir_padrao_presente)

lemma permissoes_padrao_distinct: "distinct (map fst permissoes_padrao)"
  by (simp add: permissoes_padrao_def)

lemma criar_permissoes_padrao_novas:
  "\<exists>novas. permissoes (criar_permissoes_padrao db) = permissoes db @ novas \<and>
           map dados novas = filter (\<lambda>d. fst d \<notin> p_codigo ` set (permissoes db)) permissoes_padrao \<and>
           list_all p_ativa novas"
  using fold_inserir_padrao[OF permissoes_padrao_distinct, of "permissoes db"]
  by (simp add: criar_permissoes_padrao_def)

lemma criar_permissoes_padrao_presentes:
  assumes "d \<in> set permissoes_padrao"
  shows "fst d \<in> p_codigo ` set (permissoes (criar_permissoes_padrao db))"
proof (cases "fst d \<in> p_codigo ` set (permissoes db)")
  case True
  then show ?thesis using criar_permissoes_padrao_novas[of db] by auto
next
  case False
  obtain novas where n: "permissoes (criar_permissoes_padrao db) = permissoes db @ novas"
    "map dados novas = filter (\<lambda>d. fst d \<notin> p_codigo ` set (permissoes db)) permissoes_padrao"
    using criar_permissoes_padrao_novas[of db] by blast
  have "d \<in> set (map dados novas)" using assms False n(2) by simp
  then obtain r where "r \<in> set novas" "dados r = d" by auto
  then have "r \<in> set (permissoes (criar_permissoes_padrao db))" "p_codigo r = fst d"
    using n(1) by (auto simp: dados_def)
  then show ?thesis by force
qed

lemma criar_permissoes_padrao_idem:
  "criar_permissoes_padrao (criar_permissoes_padrao db) = criar_permissoes_padrao db"
proof -
  have "fold inserir_padrao permissoes_padrao (permissoes (criar_permissoes_padrao db))
        = permissoes (criar_permissoes_padrao db)"
    by (rule fold_inserir_padrao_presentes) (simp add: criar_permissoes_padrao_presentes)
  then show ?thesis by (simp add: criar_permissoes_padrao_def)
qed

lemma criar_permissoes_padrao_funpow:
  "1 \<le> n \<Longrightarrow> (criar_permissoes_padrao ^^ n) db = criar_permissoes_padrao db"
proof (induction n)
  case 0
  then show ?case by simp
next
  case (Suc n)
  show ?case
  proof (cases "n = 0")
    case True
    then show ?thesis by simp
  next
    case False
    then have "(criar_permissoes_padrao ^^ n) db = criar_permissoes_padrao db"
      using Suc.IH by simp
    then show ?thesis by (simp add: criar_permissoes_padrao_idem)
  qed
qed


text \<open>
  C4. \<^verbatim>\<open>criar_permissoes_padrao\<close> is idempotent. In every store it keeps the rows of
  the permission table as they are and appends, in catalogue order, one row for each of
  the five catalogue entries whose code no existing row has, with the catalogue's name
  and description. From an empty permission table, any number \<open>n \<ge> 1\<close> of calls leaves
  what the first call left: exactly five rows, carrying the catalogue's codes, names and
  descriptions.
\<close>

theorem criar_permissoes_padrao_idempotente:
  "criar_permissoes_padrao (criar_permissoes_padrao db) = criar_permissoes_padrao db \<and>
   (\<exists>novas. permissoes (criar_permissoes_padrao db) = permissoes db @ novas \<and>
      map dados novas
        = filter (\<lambda>d. fst d \<notin> p_codigo ` set (permissoes db)) permissoes_padrao) \<and>
   (permissoes db = [] \<and> 1 \<le> n \<longrightarrow>
      (criar_permissoes_padrao ^^ n) db = criar_permissoes_padrao db \<and>
      length (permissoes ((criar_permissoes_padrao ^^ n) db)) = 5 \<and>
      map dados (permissoes ((criar_permissoes_padrao ^^ n) db)) = permissoes_padrao)"
proof -
  have a: "criar_permissoes_padrao (criar_permissoes_padrao db) = criar_permissoes_padrao db"
    by (rule criar_permissoes_padrao_idem)
  obtain novas where n: "permissoes (criar_permissoes_padrao db) = permissoes db @ novas"
    "map dados novas = filter (\<lambda>d. fst d \<notin> p_codigo ` set (permissoes db)) permissoes_padrao"
    using criar_permissoes_padrao_novas[of db] by blast
  have c: "(criar_permissoes_padrao ^^ n) db = criar_permissoes_padrao db \<and>
      length (permissoes ((criar_permissoes_padrao ^^ n) db)) = 5 \<and>
      map dados (permissoes ((criar_permissoes_padrao ^^ n) db)) = permissoes_padrao"
    if e: "permissoes db = []" and p: "1 \<le> n"
  proof -
    have f: "(criar_permissoes_padrao ^^ n) db = criar_permissoes_padrao db"
      using p by (rule criar_permissoes_padrao_funpow)
    have m: "map dados (permissoes (criar_permissoes_padrao db)) = permissoes_padrao"
      using n e by simp
    have "length (map dados (permissoes (criar_permissoes_padrao db))) = 5"
      unfolding m by (simp add: permissoes_padrao_def)
    then have l: "length (permissoes (criar_permissoes_padrao db)) = 5"
      by (simp only: length_map)
    show ?thesis using f m l by simp
  qed
  show ?thesis using a n c by blast
qed


theorem criar_permissoes_padrao_idempotente_witness:
  "permissoes banco_vazio = [] \<and> (1::nat) \<le> 3 \<and>
   (criar_permissoes_padrao ^^ 3) banco_vazio = criar_permissoes_padrao banco_vazio \<and>
   length (permissoes ((criar_permissoes_padrao ^^ 3) banco_vazio)) = 5"
proof -
  have e: "permissoes banco_vazio = []" by (simp add: banco_vazio_def)
  have n: "(1::nat) \<le> 3" by simp
  show ?thesis using e n criar_permissoes_padrao_idempotente[of banco_vazio 3] by blast
qed

section \<open>Login\<close>

lemma find_unico:
  "distinct (map f xs) \<Longrightarrow> x \<in> set xs \<Longrightarrow> f x = k \<Longrightarrow> find (\<lambda>y. f y = k) xs = Some x"
  by (induction xs) (auto simp: image_iff)

lemma find_ausente: "(\<forall>x\<in>set xs. f x \<noteq> k) \<Longrightarrow> find (\<lambda>y. f y = k) xs = None"
  by (simp add: find_None_iff)

lemma verify_hash_password:
  "length sal = 22 \<Longrightarrow> verify_password kdf password (hash_password kdf sal password)"
  by (simp add: verify_password_def hash_password_def hashpw_def gensalt_def)

lemma normaliza_bia: "py_lower (py_strip ''  Bia@Acme.com '') = ''bia@acme.com''"
  by (simp add: py_lower_def py_strip_def py_lower_char_def py_isspace_def)

text \<open>
  C1 (as amended). \<^verbatim>\<open>fazer_login\<close> looks the user up by the supplied email after
  \<^verbatim>\<open>strip()\<close> and \<^verbatim>\<open>lower()\<close>, and then checks in this order, in a store whose
  emails and company keys are unique: (1) no user has that email: "Email ou senha
  incorretos", store unchanged; (2) the user is not \<^verbatim>\<open>ativo\<close>: "Usuario inativo",
  whatever the company and the password; (3) the user's company is not \<^verbatim>\<open>ativa\<close>:
  "Empresa inativa", whatever the password; (4) the password does not verify against the
  stored hash: "Email ou senha incorretos"; (5) otherwise the user is returned with
  \<^verbatim>\<open>ultimo_login\<close> set to the current time, and that row is in the committed store.
\<close>

theorem fazer_login_ordem:
  "let email = py_lower (py_strip email_in);
       r = fazer_login verify agora agora_commit db email_in senha
   in ((\<forall>u\<in>set (usuarios db). u_email u \<noteq> email) \<longrightarrow> r = (Inl Email_ou_senha_incorretos, db)) \<and>
      (distinct (map u_email (usuarios db)) \<and> u \<in> set (usuarios db) \<and> u_email u = email \<longrightarrow>
         (\<not> u_ativo u \<longrightarrow> r = (Inl Usuario_inativo, db)) \<and>
         (u_ativo u \<and> distinct (map e_id (empresas db)) \<and> c \<in> set (empresas db) \<and>
          e_id c = u_empresa_id u \<longrightarrow>
            (\<not> e_ativa c \<longrightarrow> r = (Inl Empresa_inativa, db)) \<and>
            (e_ativa c \<and> \<not> verify senha (u_senha_hash u) \<longrightarrow>
               r = (Inl Email_ou_senha_incorretos, db)) \<and>
            (e_ativa c \<and> verify senha (u_senha_hash u) \<longrightarrow>
               fst r = Inr (u\<lparr>u_ultimo_login := Some agora, u_data_atualizacao := agora_commit\<rparr>) \<and>
               u\<lparr>u_ultimo_login := Some agora, u_data_atualizacao := agora_commit\<rparr>
                 \<in> set (usuarios (snd r)))))"
proof -
  define email where "email = py_lower (py_strip email_in)"
  define r where "r = fazer_login verify agora agora_commit db email_in senha"
  have nenhum: "r = (Inl Email_ou_senha_incorretos, db)"
    if "\<forall>u\<in>set (usuarios db). u_email u \<noteq> email"
    using find_ausente[OF that] by (simp add: r_def fazer_login_def email_def)
  have achado: "find (\<lambda>v. u_email v = email) (usuarios db) = Some u"
    if "distinct (map u_email (usuarios db))" "u \<in> set (usuarios db)" "u_email u = email"
    using that by (rule find_unico)
  have empresa: "find (\<lambda>e. e_id e = u_empresa_id u) (empresas db) = Some c"
    if "distinct (map e_id (empresas db))" "c \<in> set (empresas db)" "e_id c = u_empresa_id u"
    using that by (rule find_unico)
  have inativo: "r = (Inl Usuario_inativo, db)"
    if "find (\<lambda>v. u_email v = email) (usuarios db) = Some u" "\<not> u_ativo u"
    using that by (simp add: r_def fazer_login_def email_def)
  have parada: "r = (Inl Empresa_inativa, db)"
    if "find (\<lambda>v. u_email v = email) (usuarios db) = Some u" "u_ativo u"
       "find (\<lambda>e. e_id e = u_empresa_id u) (empresas db) = Some c" "\<not> e_ativa c"
    using that by (simp add: r_def fazer_login_def email_def)
  have senha_errada: "r = (Inl Email_ou_senha_incorretos, db)"
    if "find (\<lambda>v. u_email v = email) (usuarios db) = Some u" "u_ativo u"
       "find (\<lambda>e. e_id e = u_empresa_id u) (empresas db) = Some c" "e_ativa c"
       "\<not> verify senha (u_senha_hash u)"
    using that by (simp add: r_def fazer_login_def email_def)
  have ok: "fst r = Inr (u\<lparr>u_ultimo_login := Some agora, u_data_atualizacao := agora_commit\<rparr>) \<and>
            u\<lparr>u_ultimo_login := Some agora, u_data_atualizacao := agora_commit\<rparr>
              \<in> set (usuarios (snd r))"
    if f: "find (\<lambda>v. u_email v = email) (usuarios db) = Some u" and "u_ativo u"
       "find (\<lambda>e. e_id e = u_empresa_id u) (empresas db) = Some c" "e_ativa c"
       "verify senha (u_senha_hash u)"
  proof -
    have "u \<in> set (usuarios db)" using f by (auto simp: find_Some_iff)
    then show ?thesis using that by (force simp: r_def fazer_login_def email_def)
  qed
  show ?thesis
    unfolding Let_def email_def[symmetric] r_def[symmetric]
    using nenhum achado empresa inativo parada senha_errada ok by blast
qed

theorem fazer_login_ordem_witness:
  "py_lower (py_strip ''eva@acme.com'') \<notin> set (map u_email (usuarios banco_exemplo)) \<and>
   fazer_login (verify_password kdf_exemplo) 100 101 banco_exemplo ''eva@acme.com'' ''bia12345''
     = (Inl Email_ou_senha_incorretos, banco_exemplo) \<and>
   distinct (map u_email (usuarios banco_exemplo)) \<and>
   distinct (map e_id (empresas banco_exemplo)) \<and>
   usuario_dora \<in> set (usuarios banco_exemplo) \<and> \<not> u_ativo usuario_dora \<and>
   fazer_login (verify_password kdf_exemplo) 100 101 banco_exemplo ''dora@acme.com'' ''dora4321''
     = (Inl Usuario_inativo, banco_exemplo) \<and>
   usuario_caio \<in> set (usuarios banco_exemplo) \<and> u_ativo usuario_caio \<and>
   empresa_parada \<in> set (empresas banco_exemplo) \<and>
   e_id empresa_parada = u_empresa_id usuario_caio \<and> \<not> e_ativa empresa_parada \<and>
   fazer_login (verify_password kdf_exemplo) 100 101 banco_exemplo ''caio@parada.com'' ''caio9876''
     = (Inl Empresa_inativa, banco_exemplo) \<and>
   usuario_bia \<in> set (usuarios banco_exemplo) \<and> u_ativo usuario_bia \<and>
   empresa_acme \<in> set (empresas banco_exemplo) \<and>
   e_id empresa_acme = u_empresa_id usuario_bia \<and> e_ativa empresa_acme \<and>
   \<not> verify_password kdf_exemplo ''errada'' (u_senha_hash usuario_bia) \<and>
   fazer_login (verify_password kdf_exemplo) 100 101 banco_exemplo ''  Bia@Acme.com '' ''errada''
     = (Inl Email_ou_senha_incorretos, banco_exemplo) \<and>
   verify_password kdf_exemplo ''bia12345'' (u_senha_hash usuario_bia) \<and>
   fst (fazer_login (verify_password kdf_exemplo) 100 101 banco_exemplo ''  Bia@Acme.com ''
          ''bia12345'')
     = Inr (usuario_bia\<lparr>u_ultimo_login := Some 100, u_data_atualizacao := 101\<rparr>)"
proof -
  have n1: "py_lower (py_strip ''eva@acme.com'') = ''eva@acme.com''"
    and n2: "py_lower (py_strip ''dora@acme.com'') = ''dora@acme.com''"
    and n3: "py_lower (py_strip ''caio@parada.com'') = ''caio@parada.com''"
    by (simp_all add: py_lower_def py_strip_def py_lower_char_def py_isspace_def)
  have a: "\<forall>u\<in>set (usuarios banco_exemplo). u_email u \<noteq> py_lower (py_strip ''eva@acme.com'')"
    unfolding n1 by (simp add: exemplo_defs)
  have d: "distinct (map u_email (usuarios banco_exemplo))"
    "distinct (map e_id (empresas banco_exemplo))"
    by (simp_all add: exemplo_defs)
  have dora: "usuario_dora \<in> set (usuarios banco_exemplo)" "\<not> u_ativo usuario_dora"
    "u_email usuario_dora = py_lower (py_strip ''dora@acme.com'')"
    unfolding n2 by (simp_all add: banco_exemplo_def usuario_dora_def)
  have caio: "usuario_caio \<in> set (usuarios banco_exemplo)" "u_ativo usuario_caio"
    "u_email usuario_caio = py_lower (py_strip ''caio@parada.com'')"
    "empresa_parada \<in> set (empresas banco_exemplo)"
    "e_id empresa_parada = u_empresa_id usuario_caio" "\<not> e_ativa empresa_parada"
    unfolding n3 by (simp_all add: banco_exemplo_def usuario_caio_def empresa_parada_def)
  have bia: "usuario_bia \<in> set (usuarios banco_exemplo)" "u_ativo usuario_bia"
    "u_email usuario_bia = py_lower (py_strip ''  Bia@Acme.com '')"
    "empresa_acme \<in> set (empresas banco_exemplo)"
    "e_id empresa_acme = u_empresa_id usuario_bia" "e_ativa empresa_acme"
    unfolding normaliza_bia by (simp_all add: banco_exemplo_def usuario_bia_def empresa_acme_def)
  have errada: "\<not> verify_password kdf_exemplo ''errada'' (u_senha_hash usuario_bia)"
    by (simp add: usuario_bia_def verify_password_def hash_password_def hashpw_def gensalt_def
        sal_exemplo_def kdf_exemplo_def encode_utf8_def)
  have certa: "verify_password kdf_exemplo ''bia12345'' (u_senha_hash usuario_bia)"
    by (simp add: usuario_bia_def verify_hash_password sal_exemplo_def)
  let ?v = "verify_password kdf_exemplo"
  have r1: "fazer_login ?v 100 101 banco_exemplo ''eva@acme.com'' ''bia12345''
     = (Inl Email_ou_senha_incorretos, banco_exemplo)"
    using a fazer_login_ordem[where email_in = "''eva@acme.com''" and db = banco_exemplo
        and verify = ?v and agora = 100 and agora_commit = 101 and senha = "''bia12345''"]
    unfolding Let_def by blast
  have r2: "fazer_login ?v 100 101 banco_exemplo ''dora@acme.com'' ''dora4321''
     = (Inl Usuario_inativo, banco_exemplo)"
    using d dora fazer_login_ordem[where email_in = "''dora@acme.com''" and db = banco_exemplo
        and verify = ?v and agora = 100 and agora_commit = 101
        and senha = "''dora4321''" and u = usuario_dora]
    unfolding Let_def by blast
  have r3: "fazer_login ?v 100 101 banco_exemplo ''caio@parada.com'' ''caio9876''
     = (Inl Empresa_inativa, banco_exemplo)"
    using d caio fazer_login_ordem[where email_in = "''caio@parada.com''" and db = banco_exemplo
        and verify = ?v and agora = 100 and agora_commit = 101
        and senha = "''caio9876''" and u = usuario_caio and c = empresa_parada]
    unfolding Let_def by blast
  have r4: "fazer_login ?v 100 101 banco_exemplo ''  Bia@Acme.com '' ''errada''
     = (Inl Email_ou_senha_incorretos, banco_exemplo)"
    using d bia errada
      fazer_login_ordem[where email_in = "''  Bia@Acme.com ''" and db = banco_exemplo
        and verify = ?v and agora = 100 and agora_commit = 101
        and senha = "''errada''" and u = usuario_bia and c = empresa_acme]
    unfolding Let_def by blast
  have r5: "fst (fazer_login ?v 100 101 banco_exemplo ''  Bia@Acme.com '' ''bia12345'')
     = Inr (usuario_bia\<lparr>u_ultimo_login := Some 100, u_data_atualizacao := 101\<rparr>)"
    using d bia certa
      fazer_login_ordem[where email_in = "''  Bia@Acme.com ''" and db = banco_exemplo
        and verify = ?v and agora = 100 and agora_commit = 101
        and senha = "''bia12345''" and u = usuario_bia and c = empresa_acme]
    unfolding Let_def by blast
  have a': "py_lower (py_strip ''eva@acme.com'') \<notin> set (map u_email (usuarios banco_exemplo))"
    using a by auto
  show ?thesis
    using a' d dora(1,2) caio(1,2,4,5,6) bia(1,2,4,5,6) errada certa r1 r2 r3 r4 r5
    by (intro conjI)
qed

text \<open>
  The claim as stated looks the user up by the lowercased supplied email. With a leading
  space in the reply no user has the lowercased email, yet the code strips the reply
  first: Bia is logged in, and Dora is told her account is inactive.
\<close>

theorem fazer_login_counterexample:
  "py_lower '' bia@acme.com'' \<notin> set (map u_email (usuarios banco_exemplo)) \<and>
   fst (fazer_login (verify_password kdf_exemplo) 100 101 banco_exemplo '' bia@acme.com''
          ''bia12345'')
     = Inr (usuario_bia\<lparr>u_ultimo_login := Some 100, u_data_atualizacao := 101\<rparr>) \<and>
   py_lower '' dora@acme.com'' \<notin> set (map u_email (usuarios banco_exemplo)) \<and>
   fst (fazer_login (verify_password kdf_exemplo) 100 101 banco_exemplo '' dora@acme.com''
          ''dora4321'')
     = Inl Usuario_inativo"
proof -
  have n: "py_lower '' bia@acme.com'' = '' bia@acme.com''"
    "py_lower '' dora@acme.com'' = '' dora@acme.com''"
    "py_lower (py_strip '' bia@acme.com'') = ''bia@acme.com''"
    "py_lower (py_strip '' dora@acme.com'') = ''dora@acme.com''"
    by (simp_all add: py_lower_def py_strip_def py_lower_char_def py_isspace_def)
  have certa: "verify_password kdf_exemplo ''bia12345''
      (hash_password kdf_exemplo sal_exemplo ''bia12345'')"
    by (simp add: verify_hash_password sal_exemplo_def)
  show ?thesis
    unfolding fazer_login_def n Let_def
    using certa by (simp add: exemplo_defs)
qed

text \<open>
  C10. A successful login changes nothing but \<^verbatim>\<open>ultimo_login\<close> and
  \<^verbatim>\<open>data_atualizacao\<close> of the rows with the logged-in user's key: the company,
  permission and association tables are as before, so is the user's granted set, every
  row with another key is unchanged, and the returned user agrees with the stored one on
  every other column.
\<close>

theorem fazer_login_frame:
  assumes "fazer_login verify agora agora_commit db email_in senha = (Inr u', db')"
  shows "empresas db' = empresas db \<and> permissoes db' = permissoes db \<and>
     usuario_permissoes db' = usuario_permissoes db \<and>
     permissoes_de db' u' = permissoes_de db u' \<and>
     length (usuarios db') = length (usuarios db) \<and>
     (\<forall>i<length (usuarios db).
        (u_id (usuarios db ! i) \<noteq> u_id u' \<longrightarrow> usuarios db' ! i = usuarios db ! i) \<and>
        (u_id (usuarios db ! i) = u_id u' \<longrightarrow>
           usuarios db' ! i = (usuarios db ! i)\<lparr>u_ultimo_login := Some agora,
                                                 u_data_atualizacao := agora_commit\<rparr>)) \<and>
     (\<exists>u\<in>set (usuarios db).
        u' = u\<lparr>u_ultimo_login := Some agora, u_data_atualizacao := agora_commit\<rparr> \<and>
        u_id u' = u_id u \<and> u_empresa_id u' = u_empresa_id u \<and> u_nome u' = u_nome u \<and>
        u_email u' = u_email u \<and> u_senha_hash u' = u_senha_hash u \<and> u_ativo u' = u_ativo u \<and>
        u_is_admin u' = u_is_admin u \<and> u_data_cadastro u' = u_data_cadastro u)"
proof -
  define email where "email = py_lower (py_strip email_in)"
  obtain u where f: "find (\<lambda>v. u_email v = email) (usuarios db) = Some u"
    and u': "u' = u\<lparr>u_ultimo_login := Some agora, u_data_atualizacao := agora_commit\<rparr>"
    and db': "db' = db\<lparr>usuarios := map (\<lambda>v. if u_id v = u_id u
         then v\<lparr>u_ultimo_login := Some agora, u_data_atualizacao := agora_commit\<rparr> else v)
         (usuarios db)\<rparr>"
    using assms
    by (auto simp: fazer_login_def email_def Let_def split: option.splits if_splits)
  have m: "u \<in> set (usuarios db)" using f by (auto simp: find_Some_iff)
  have id: "u_id u' = u_id u" using u' by simp
  show ?thesis using m id by (auto simp: u' db' permissoes_de_def)
qed

theorem fazer_login_frame_witness:
  "fazer_login (verify_password kdf_exemplo) 100 101 banco_exemplo ''bia@acme.com'' ''bia12345''
     = (Inr (usuario_bia\<lparr>u_ultimo_login := Some 100, u_data_atualizacao := 101\<rparr>),
        banco_exemplo\<lparr>usuarios :=
          [usuario_ana, usuario_bia\<lparr>u_ultimo_login := Some 100, u_data_atualizacao := 101\<rparr>,
           usuario_caio, usuario_dora]\<rparr>) \<and>
   empresas (banco_exemplo\<lparr>usuarios :=
          [usuario_ana, usuario_bia\<lparr>u_ultimo_login := Some 100, u_data_atualizacao := 101\<rparr>,
           usuario_caio, usuario_dora]\<rparr>) = empresas banco_exemplo \<and>
   permissoes_de (banco_exemplo\<lparr>usuarios :=
          [usuario_ana, usuario_bia\<lparr>u_ultimo_login := Some 100, u_data_atualizacao := 101\<rparr>,
           usuario_caio, usuario_dora]\<rparr>)
       (usuario_bia\<lparr>u_ultimo_login := Some 100, u_data_atualizacao := 101\<rparr>)
     = permissoes_de banco_exemplo
         (usuario_bia\<lparr>u_ultimo_login := Some 100, u_data_atualizacao := 101\<rparr>)"
proof -
  have n: "py_lower (py_strip ''bia@acme.com'') = ''bia@acme.com''"
    by (simp add: py_lower_def py_strip_def py_lower_char_def py_isspace_def)
  have certa: "verify_password kdf_exemplo ''bia12345''
      (hash_password kdf_exemplo sal_exemplo ''bia12345'')"
    by (simp add: verify_hash_password sal_exemplo_def)
  have eq: "fazer_login (verify_password kdf_exemplo) 100 101 banco_exemplo ''bia@acme.com''
      ''bia12345''
     = (Inr (usuario_bia\<lparr>u_ultimo_login := Some 100, u_data_atualizacao := 101\<rparr>),
        banco_exemplo\<lparr>usuarios :=
          [usuario_ana, usuario_bia\<lparr>u_ultimo_login := Some 100, u_data_atualizacao := 101\<rparr>,
           usuario_caio, usuario_dora]\<rparr>)"
    unfolding fazer_login_def n Let_def
    using certa by (simp add: exemplo_defs)
  show ?thesis using eq fazer_login_frame[OF eq] by blast
qed

section \<open>Company registration\<close>

lemma py_strip_length: "length (py_strip s) \<le> length s"
proof -
  have "length (dropWhile py_isspace (rev (dropWhile py_isspace s)))
        \<le> length (rev (dropWhile py_isspace s))"
    by (rule length_dropWhile_le)
  also have "\<dots> \<le> length s" by (simp add: length_dropWhile_le)
  finally show ?thesis by (simp add: py_strip_def)
qed

lemma find_presente:
  "k \<in> f ` set xs \<Longrightarrow> find (\<lambda>y. f y = k) xs \<noteq> None"
  by (auto simp: find_None_iff)






section \<open>User registration\<close>

lemma py_lower_char_arroba: "(py_lower_char c = CHR ''@'') = (c = CHR ''@'')"
  by (cases c) (auto simp: py_lower_char_def Let_def)

lemma py_lower_char_ponto: "(py_lower_char c = CHR ''.'') = (c = CHR ''.'')"
  by (cases c) (auto simp: py_lower_char_def Let_def)

lemma set_dropWhile_fica: "\<not> P c \<Longrightarrow> (c \<in> set (dropWhile P xs)) = (c \<in> set xs)"
  by (induction xs) auto

lemma py_strip_fica: "\<not> py_isspace c \<Longrightarrow> (c \<in> set (py_strip s)) = (c \<in> set s)"
  by (simp add: py_strip_def set_dropWhile_fica)

lemma email_normalizado_arroba:
  "(CHR ''@'' \<in> set (py_lower (py_strip s))) = (CHR ''@'' \<in> set s)"
proof -
  have "(CHR ''@'' \<in> set (py_lower t)) = (CHR ''@'' \<in> set t)" for t
    using py_lower_char_arroba by (induction t) (auto simp: py_lower_def eq_commute)
  moreover have "\<not> py_isspace (CHR ''@'')" by (simp add: py_isspace_def)
  ultimately show ?thesis by (simp add: py_strip_fica)
qed

lemma email_normalizado_ponto:
  "(CHR ''.'' \<in> set (py_lower (py_strip s))) = (CHR ''.'' \<in> set s)"
proof -
  have "(CHR ''.'' \<in> set (py_lower t)) = (CHR ''.'' \<in> set t)" for t
    using py_lower_char_ponto by (induction t) (auto simp: py_lower_def eq_commute)
  moreover have "\<not> py_isspace (CHR ''.'')" by (simp add: py_isspace_def)
  ultimately show ?thesis by (simp add: py_strip_fica)
qed

lemma cadastrar_usuario_falha:
  "fst (cadastrar_usuario py_int kdf sal agora db ent) = Inl e \<Longrightarrow>
   snd (cadastrar_usuario py_int kdf sal agora db ent) = db"
  by (auto simp: cadastrar_usuario_def Let_def split: option.splits if_splits)

lemma cadastrar_usuario_validacoes:
  assumes "length (in_nome ent) < 3 \<or> CHR ''@'' \<notin> set (in_email ent) \<or>
     CHR ''.'' \<notin> set (in_email ent) \<or>
     py_lower (py_strip (in_email ent)) \<in> u_email ` set (usuarios db) \<or>
     length (in_senha ent) < 6 \<or> in_senha ent \<noteq> in_confirma_senha ent \<or>
     py_int (in_empresa_id ent) = None \<or>
     (\<exists>i. py_int (in_empresa_id ent) = Some i \<and> i \<notin> e_id ` set (empresas db))"
  shows "(\<exists>e. fst (cadastrar_usuario py_int kdf sal agora db ent) = Inl e) \<and>
     snd (cadastrar_usuario py_int kdf sal agora db ent) = db"
proof -
  have n: "length (py_strip (in_nome ent)) < 3" if "length (in_nome ent) < 3"
    using that py_strip_length[of "in_nome ent"] by simp
  have d: "find (\<lambda>u. u_email u = py_lower (py_strip (in_email ent))) (usuarios db) \<noteq> None"
    if "py_lower (py_strip (in_email ent)) \<in> u_email ` set (usuarios db)"
    using that by (rule find_presente)
  have c: "find (\<lambda>e. e_id e = i) (empresas db) = None" if "i \<notin> e_id ` set (empresas db)" for i
    using that by (auto simp: find_None_iff)
  show ?thesis
    using assms n d c
    by (auto simp: cadastrar_usuario_def Let_def email_normalizado_arroba email_normalizado_ponto
        split: option.splits)
qed

lemma cadastrar_usuario_guarda_hash:
  "fst (cadastrar_usuario py_int kdf sal agora db ent) = Inr u \<Longrightarrow>
   u_senha_hash u = hash_password kdf sal (in_senha ent) \<and>
   take 7 (u_senha_hash u) = ''$2b$12$'' \<and> 6 \<le> length (in_senha ent) \<and>
   in_senha ent = in_confirma_senha ent"
  by (auto simp: cadastrar_usuario_def Let_def hash_password_def hashpw_def gensalt_def
      split: option.splits if_splits)

text \<open>
  C3. \<^verbatim>\<open>cadastrar_usuario\<close> rejects a short name, an email without "@" or ".", an
  email already registered, a short password and a mismatched confirmation
  (\<open>cadastrar_usuario_validacoes\<close>), and stores the bcrypt hash of the password
  (\<open>cadastrar_usuario_guarda_hash\<close>). It lists the active companies and refuses to go
  on when there is none, but it then looks the chosen company up by id alone: with
  company 1 active and company 2 inactive, the reply 2 registers Eva under the inactive
  company.
\<close>

theorem cadastrar_usuario_empresa_inativa:
  "empresa_parada \<in> set (empresas banco_exemplo) \<and> \<not> e_ativa empresa_parada \<and>
   int_decimal (in_empresa_id entrada_eva) = Some (e_id empresa_parada) \<and>
   cadastrar_usuario int_decimal kdf_exemplo sal_exemplo 60 banco_exemplo entrada_eva
     = (Inr usuario_eva, banco_exemplo\<lparr>usuarios := usuarios banco_exemplo @ [usuario_eva]\<rparr>)"
proof -
  have n: "py_strip ''Eva Sol'' = ''Eva Sol''"
    "py_lower (py_strip ''Eva@Parada.com'') = ''eva@parada.com''"
    "py_strip ''N'' = ''N''"
    by (simp_all add: py_lower_def py_strip_def py_lower_char_def py_isspace_def)
  have i: "int_decimal ''2'' = Some 2" by (simp add: int_decimal_def)
  have c: "cadastrar_usuario int_decimal kdf_exemplo sal_exemplo 60 banco_exemplo entrada_eva
     = (Inr usuario_eva, banco_exemplo\<lparr>usuarios := usuarios banco_exemplo @ [usuario_eva]\<rparr>)"
    unfolding cadastrar_usuario_def entrada_eva_def
    by (simp add: n i Let_def resposta_sim_def exemplo_defs usuario_eva_def novo_id_def)
  show ?thesis using c i by (simp add: entrada_eva_def banco_exemplo_def empresa_parada_def)
qed

theorem cadastrar_usuario_empresa_inativa_witness:
  "u_empresa_id usuario_eva = e_id empresa_parada \<and> \<not> e_ativa empresa_parada \<and>
   fst (cadastrar_usuario int_decimal kdf_exemplo sal_exemplo 60 banco_exemplo entrada_eva)
     = Inr usuario_eva"
  using cadastrar_usuario_empresa_inativa
  by (simp add: usuario_eva_def empresa_parada_def)

section \<open>Permission assignment\<close>



lemma rollback_substituir:
  "rollback (substituir_permissoes uid colecao (sem_pendencias db)) = sem_pendencias db"
  by (simp add: rollback_def substituir_permissoes_def sem_pendencias_def)





lemma pendente_commit: "pendente (commit s) = confirmado (commit s)"
  by (simp add: commit_def)

lemma sem_pendencias_campos:
  "confirmado (sem_pendencias db) = db" "pendente (sem_pendencias db) = db"
  by (simp_all add: sem_pendencias_def)








lemma configurar_nao_admin:
  assumes i: "(case usuario_id of None \<Rightarrow> py_int id_in | Some i \<Rightarrow> Some i) = Some uid"
    and f: "find (\<lambda>v. u_id v = uid) (usuarios db) = Some u"
    and na: "\<not> u_is_admin u"
    and e: "find (\<lambda>e. e_id e = u_empresa_id u) (empresas db) = Some c"
  shows "configurar_permissoes_usuario py_int autoflush falha db usuario_id id_in escolha_in =
     (let db1 = (if filter p_ativa (permissoes db) = [] then criar_permissoes_padrao db else db);
          escolha = py_lower (py_strip escolha_in);
          s = sem_pendencias db1
      in if escolha = ''nenhum''
         then (if falha = Some 0
               then (Erro_ao_configurar, s)
               else (Permissoes_removidas, commit (substituir_permissoes uid [] s)))
         else if escolha = ''todos''
         then (if falha = Some 0
               then (Erro_ao_configurar, s)
               else (Acesso_todos,
                     commit (substituir_permissoes uid
                       (map p_id (filter p_ativa (permissoes db1))) s)))
         else (case ler_ids py_int escolha of
                 None \<Rightarrow> (Escolha_invalida, s)
               | Some ids \<Rightarrow>
                  (case anexar_ids falha (permissoes db1) ids [] of
                     (levantou, colecao) \<Rightarrow>
                       if levantou \<or> \<not> autoflush \<and> \<not> distinct colecao \<or>
                          falha = Some (length ids)
                       then (Erro_ao_configurar, s)
                       else (Permissoes_configuradas,
                             commit (substituir_permissoes uid
                               (if autoflush then remdups colecao else colecao) s)))))"
  using i f na e
  by (simp add: configurar_permissoes_usuario_def Let_def rollback_substituir
      split: option.splits prod.splits)

lemma configurar_forma:
  fixes py_int autoflush falha db usuario_id id_in escolha_in
  defines "r \<equiv> configurar_permissoes_usuario py_int autoflush falha db usuario_id id_in escolha_in"
  shows "fst r \<in> {Id_usuario_invalido, Usuario_nao_encontrado, Usuario_administrador,
                   Config_AttributeError} \<and> snd r = sem_pendencias db
       \<or> (\<exists>db1. (db1 = db \<or> filter p_ativa (permissoes db) = [] \<and>
                   db1 = criar_permissoes_padrao db) \<and>
              (fst r \<in> {Escolha_invalida, Erro_ao_configurar} \<and> snd r = sem_pendencias db1
               \<or> fst r \<in> {Permissoes_removidas, Acesso_todos, Permissoes_configuradas} \<and>
                 (\<exists>uid colecao.
                    snd r = commit (substituir_permissoes uid colecao (sem_pendencias db1)))))"
proof (cases "case usuario_id of None \<Rightarrow> py_int id_in | Some i \<Rightarrow> Some i")
  case None
  then show ?thesis by (simp add: r_def configurar_permissoes_usuario_def)
next
  case i: (Some uid)
  show ?thesis
  proof (cases "find (\<lambda>v. u_id v = uid) (usuarios db)")
    case None
    then show ?thesis using i by (simp add: r_def configurar_permissoes_usuario_def)
  next
    case f: (Some u)
    show ?thesis
    proof (cases "u_is_admin u")
      case True
      then show ?thesis using i f by (simp add: r_def configurar_permissoes_usuario_def)
    next
      case na: False
      show ?thesis
      proof (cases "find (\<lambda>e. e_id e = u_empresa_id u) (empresas db)")
        case None
        then show ?thesis using i f na by (simp add: r_def configurar_permissoes_usuario_def)
      next
        case e: (Some c)
        define db1 where
          "db1 = (if filter p_ativa (permissoes db) = [] then criar_permissoes_padrao db else db)"
        have d: "db1 = db \<or> filter p_ativa (permissoes db) = [] \<and> db1 = criar_permissoes_padrao db"
          by (simp add: db1_def)
        have eq0: "r = configurar_permissoes_usuario py_int autoflush falha db usuario_id id_in escolha_in"
          by (simp add: r_def)
        note eq = eq0[unfolded configurar_nao_admin[where py_int = py_int and id_in = id_in
              and usuario_id = usuario_id, OF i f na e], folded db1_def]
        have "fst r \<in> {Escolha_invalida, Erro_ao_configurar} \<and> snd r = sem_pendencias db1
               \<or> fst r \<in> {Permissoes_removidas, Acesso_todos, Permissoes_configuradas} \<and>
                 (\<exists>uid colecao.
                    snd r = commit (substituir_permissoes uid colecao (sem_pendencias db1)))"
          unfolding eq Let_def
          by (simp split: option.splits prod.splits) blast
        with d show ?thesis by blast
      qed
    qed
  qed
qed


lemma configurar_pendente:
  "pendente (snd (configurar_permissoes_usuario py_int autoflush falha db usuario_id id_in escolha_in))
     = confirmado (snd (configurar_permissoes_usuario py_int autoflush falha db usuario_id id_in escolha_in))"
  using configurar_forma[of py_int autoflush falha db usuario_id id_in escolha_in]
  by (auto simp: pendente_commit sem_pendencias_campos)











section \<open>Failed operations\<close>




lemma commit_pendente:
  "commit ((sem_pendencias db)\<lparr>pendente := db1\<rparr>) = sem_pendencias db1"
  by (simp add: commit_def sem_pendencias_def)


lemma cadastrar_empresa_sessao_sem_falha:
  "cadastrar_empresa_sessao None agora db nome_in cnpj_in seg_in
     = (fst (cadastrar_empresa agora db nome_in cnpj_in seg_in),
        sem_pendencias (snd (cadastrar_empresa agora db nome_in cnpj_in seg_in)))"
  by (simp add: cadastrar_empresa_sessao_def cadastrar_empresa_def Let_def commit_pendente)


lemma configurar_sem_pendencias:
  "snd (configurar_permissoes_usuario py_int autoflush falha db usuario_id id_in escolha_in)
     = sem_pendencias (confirmado (snd (configurar_permissoes_usuario py_int autoflush falha db
         usuario_id id_in escolha_in)))"
  using configurar_pendente[of py_int autoflush falha db usuario_id id_in escolha_in]
  by (cases "snd (configurar_permissoes_usuario py_int autoflush falha db usuario_id id_in escolha_in)")
     (simp add: sem_pendencias_def)

lemma cadastrar_usuario_sessao_sem_falha:
  "cadastrar_usuario_sessao py_int kdf sal agora True None None db ent
     = (fst (cadastrar_usuario py_int kdf sal agora db ent),
        sem_pendencias (snd (cadastrar_usuario py_int kdf sal agora db ent)))"
  using configurar_sem_pendencias[of py_int True None]
  by (simp add: cadastrar_usuario_sessao_def cadastrar_usuario_def Let_def commit_pendente
      sem_pendencias_campos split: option.splits)







end
